theory Spec2Isabelle
  imports Main
begin

section \<open>Python values\<close>

text \<open>
  A Python \<open>str\<close> is a sequence of Unicode code points, and every string operation of the
  program (\<open>strip\<close>, \<open>startswith\<close>, \<open>lstrip\<close>, \<open>in\<close>, slicing) works on code points. A string
  is therefore a list of code points; the Chinese literals of the source are written by
  their code points, ASCII literals through \<open>ascii\<close>.
\<close>

type_synonym ustring = "nat list"

definition ascii :: "string \<Rightarrow> ustring" where
  "ascii s = map of_char s"

text \<open>
  The values that \<open>json.loads\<close> produces and that the dict literals of the program build.
  A dict is an association list in insertion order; a non-integer number keeps its literal.
\<close>

datatype json =
    JNull
  | JBool bool
  | JInt int
  | JFloat ustring
  | JStr ustring
  | JList "json list"
  | JDict "(ustring \<times> json) list"

text \<open>The exceptions the program can raise; every one is a subclass of \<open>Exception\<close>.\<close>

datatype error =
    ValueError
  | ApiError int ustring
  | RequestException
  | JSONDecodeError
  | KeyError
  | IndexError
  | TypeError
  | AttributeError
  | PackageNotFoundError
  | SaveError

text \<open>
  Library functions that are not code of this repository are parameters of the model:
  \<open>json.loads\<close> (\<open>None\<close> when it raises), \<open>str.lower\<close>, and the text that an f-string
  gives for a value that is not a string.
\<close>

record pylib =
  json_loads :: "ustring \<Rightarrow> json option"
  str_lower :: "ustring \<Rightarrow> ustring"
  py_repr :: "json \<Rightarrow> ustring"

definition then_do :: "error + 'a \<Rightarrow> ('a \<Rightarrow> error + 'b) \<Rightarrow> error + 'b" where
  "then_do r f = (case r of Inl e \<Rightarrow> Inl e | Inr x \<Rightarrow> f x)"

subsection \<open>String operations\<close>

text \<open>The characters \<open>str.strip()\<close> removes: those for which \<open>str.isspace\<close> holds.\<close>

definition is_space :: "nat \<Rightarrow> bool" where
  "is_space c \<longleftrightarrow>
     (9 \<le> c \<and> c \<le> 13) \<or> (28 \<le> c \<and> c \<le> 32) \<or> c = 133 \<or> c = 160 \<or> c = 5760 \<or>
     (8192 \<le> c \<and> c \<le> 8202) \<or> c = 8232 \<or> c = 8233 \<or> c = 8239 \<or> c = 8287 \<or> c = 12288"

definition py_strip :: "ustring \<Rightarrow> ustring" where
  "py_strip s = rev (dropWhile is_space (rev (dropWhile is_space s)))"

definition lstrip_chars :: "ustring \<Rightarrow> ustring \<Rightarrow> ustring" where
  "lstrip_chars chars s = dropWhile (\<lambda>c. c \<in> set chars) s"

definition startswith :: "ustring \<Rightarrow> ustring \<Rightarrow> bool" where
  "startswith s p \<longleftrightarrow> take (length p) s = p"

definition endswith :: "ustring \<Rightarrow> ustring \<Rightarrow> bool" where
  "endswith s p \<longleftrightarrow> length p \<le> length s \<and> drop (length s - length p) s = p"

definition startswith_any :: "ustring \<Rightarrow> ustring list \<Rightarrow> bool" where
  "startswith_any s ps = list_ex (startswith s) ps"

text \<open>\<open>sub in s\<close> on strings.\<close>

fun contains :: "ustring \<Rightarrow> ustring \<Rightarrow> bool" where
  "contains sub [] = (sub = [])"
| "contains sub (c # cs) = (startswith (c # cs) sub \<or> contains sub cs)"

text \<open>\<open>s.split(sep)\<close> for a one-character separator: always at least one piece.\<close>

fun split_char :: "nat \<Rightarrow> ustring \<Rightarrow> ustring list" where
  "split_char sep [] = [[]]"
| "split_char sep (c # cs) =
     (if c = sep then [] # split_char sep cs
      else (case split_char sep cs of
              [] \<Rightarrow> [[c]]
            | w # ws \<Rightarrow> (c # w) # ws))"

text \<open>\<open>s.split(sep, 1)[1]\<close> when \<open>sep in s\<close>: everything after the first separator.\<close>

definition after_first :: "nat \<Rightarrow> ustring \<Rightarrow> ustring" where
  "after_first sep s = tl (dropWhile (\<lambda>c. c \<noteq> sep) s)"

text \<open>\<open>xs[:n]\<close>: a negative bound counts from the end.\<close>

definition slice_to :: "int \<Rightarrow> 'a list \<Rightarrow> 'a list" where
  "slice_to n xs = (if 0 \<le> n then take (nat n) xs else take (length xs - nat (- n)) xs)"

text \<open>\<open>str(n)\<close> for an integer: its decimal digits.\<close>

function str_nat :: "nat \<Rightarrow> ustring" where
  "str_nat n = (if n < 10 then [48 + n] else str_nat (n div 10) @ [48 + n mod 10])"
  by pat_completeness auto
termination
  by (relation "measure id") auto

declare str_nat.simps [simp del]

definition str_int :: "int \<Rightarrow> ustring" where
  "str_int i = (if i < 0 then 45 # str_nat (nat (- i)) else str_nat (nat i))"

subsection \<open>Dict literals of the outline schema\<close>

definition mk_fact :: "ustring \<Rightarrow> ustring \<Rightarrow> json" where
  "mk_fact f e = JDict [(ascii ''fact'', JStr f), (ascii ''explanation'', JStr e)]"

definition mk_point :: "ustring \<Rightarrow> json list \<Rightarrow> json" where
  "mk_point mp facts =
     JDict [(ascii ''main_point'', JStr mp), (ascii ''supporting_facts'', JList facts)]"

definition mk_slide :: "ustring \<Rightarrow> ustring \<Rightarrow> json list \<Rightarrow> json" where
  "mk_slide t s ps =
     JDict [(ascii ''title'', JStr t), (ascii ''summary'', JStr s), (ascii ''points'', JList ps)]"

text \<open>Readers used to state properties of slides: \<open>d[key]\<close> where it is a list.\<close>

definition dict_get :: "json \<Rightarrow> ustring \<Rightarrow> json option" where
  "dict_get v k = (case v of JDict d \<Rightarrow> map_of d k | _ \<Rightarrow> None)"

definition list_items :: "json option \<Rightarrow> json list" where
  "list_items v = (case v of Some (JList xs) \<Rightarrow> xs | _ \<Rightarrow> [])"

definition slide_points :: "json \<Rightarrow> json list" where
  "slide_points s = list_items (dict_get s (ascii ''points''))"

definition point_facts :: "json \<Rightarrow> json list" where
  "point_facts p = list_items (dict_get p (ascii ''supporting_facts''))"

section \<open>The outline client (llm/llm\_api.py)\<close>

record LLMApi =
  api_key :: "ustring option"
  base_url :: ustring
  model :: ustring
  headers :: "(ustring \<times> ustring) list"

text \<open>\<open>if not self.api_key\<close>: \<open>None\<close> and the empty string are falsy.\<close>

definition falsy_str :: "ustring option \<Rightarrow> bool" where
  "falsy_str k \<longleftrightarrow> k = None \<or> k = Some []"

definition LLMApi_init :: "ustring option \<Rightarrow> ustring option \<Rightarrow> ustring \<Rightarrow> LLMApi" where
  "LLMApi_init key url m =
     \<lparr> api_key = key,
       base_url = (case url of
                     None \<Rightarrow> ascii ''https://api.openai.com/v1''
                   | Some u \<Rightarrow> if u = [] then ascii ''https://api.openai.com/v1'' else u),
       model = m,
       headers = [(ascii ''Content-Type'', ascii ''application/json''),
                  (ascii ''Authorization'',
                     (case key of
                        None \<Rightarrow> []
                      | Some k \<Rightarrow> if k = [] then [] else ascii ''Bearer '' @ k))] \<rparr>"

subsection \<open>Synthetic fallback generation\<close>

text \<open>
  \<open>_generate_fallback_content\<close>: the introduction slide is appended first, then one slide
  for each \<open>i\<close> in \<open>range(1, num_pages - 1)\<close>, then the summary slide when \<open>num_pages > 1\<close>.
  The three dict literals follow; each f-string is the concatenation of its pieces.
\<close>

definition intro_slide :: "ustring \<Rightarrow> json" where
  "intro_slide topic =
   mk_slide
     (topic @ [32, 45, 32, 20171, 32461])
     ([20170, 22825, 25105, 20204, 23558, 28145, 20837, 25506, 35752] @ topic @ [36825, 20010, 31934, 24425, 35805, 39064, 65292, 23427, 21253, 21547, 20102, 20016, 23500, 30340, 20869, 23481, 21644, 28145, 21051, 30340, 20869, 28085, 65292, 35753, 25105, 20204, 19968, 36215, 25581, 24320, 23427, 30340, 31070, 31192, 38754, 32433, 12290])
     [
      mk_point ([20160, 20040, 26159] @ topic)
        [
           mk_fact (topic @ [30340, 22522, 26412, 23450, 20041, 21644, 27010, 24565])
             ([26680, 24515, 27010, 24565, 35299, 37322]),
           mk_fact (topic @ [22312, 30456, 20851, 39046, 22495, 20013, 30340, 22320, 20301])
             ([37325, 35201, 24615, 21644, 24433, 21709, 21147])
        ],
      mk_point (topic @ [30340, 37325, 35201, 24615])
        [
           mk_fact ([23545, 34892, 19994, 21457, 23637, 30340, 25512, 21160, 20316, 29992])
             ([20419, 36827, 20135, 19994, 21319, 32423]),
           mk_fact ([23545, 29992, 25143, 38656, 27714, 30340, 28385, 36275, 31243, 24230])
             ([35299, 20915, 23454, 38469, 38382, 39064])
        ],
      mk_point (topic @ [30340, 21457, 23637, 21382, 31243])
        [
           mk_fact (topic @ [30340, 21382, 21490, 32972, 26223])
             ([21457, 23637, 36215, 28304]),
           mk_fact (topic @ [30340, 21457, 23637, 38454, 27573])
             ([20851, 38190, 37324, 31243, 30865])
        ],
      mk_point ([26412, 27425, 28436, 35762, 30340, 20027, 35201, 20869, 23481])
        [
           mk_fact ([23558, 28085, 30422] @ topic @ [30340, 21508, 20010, 26041, 38754])
             ([20840, 38754, 20998, 26512]),
           mk_fact ([25552, 20379, 35814, 32454, 30340, 20998, 26512, 21644, 25968, 25454, 25903, 25345])
             ([25968, 25454, 25903, 25745])
        ]
     ]"

definition middle_slide :: "ustring \<Rightarrow> int \<Rightarrow> json" where
  "middle_slide topic i =
   mk_slide
     (topic @ [32, 45, 32, 31532] @ str_int (i + 1) @ [37096, 20998])
     ([22312, 20102, 35299, 20102] @ topic @ [30340, 22522, 30784, 30693, 35782, 21518, 65292, 29616, 22312, 35753, 25105, 20204, 28145, 20837, 25506, 35752, 23427, 30340, 31532] @ str_int (i + 1) @ [20010, 37325, 35201, 26041, 38754, 65292, 36825, 37324, 26377, 35768, 22810, 20196, 20154, 24778, 21916, 30340, 21457, 29616, 12290])
     [
      mk_point (topic @ [30340, 31532] @ str_int (i + 1) @ [20010, 26680, 24515, 35201, 28857])
        [
           mk_fact (topic @ [30340, 20855, 20307, 34920, 29616, 21644, 29305, 24449])
             ([20851, 38190, 29305, 24449]),
           mk_fact (topic @ [30456, 20851, 25968, 25454, 21644, 32479, 35745])
             ([25968, 25454, 25903, 25745])
        ],
      mk_point (topic @ [30340, 31532] @ str_int (i + 1) @ [20010, 20851, 38190, 22240, 32032])
        [
           mk_fact (topic @ [24433, 21709, 22240, 32032, 20998, 26512])
             ([39537, 21160, 22240, 32032]),
           mk_fact (topic @ [24066, 22330, 21453, 24212, 21644, 21453, 39304])
             ([24066, 22330, 34920, 29616])
        ],
      mk_point (topic @ [30340, 31532] @ str_int (i + 1) @ [20010, 21457, 23637, 36235, 21183])
        [
           mk_fact (topic @ [24403, 21069, 21457, 23637, 29366, 20917])
             ([29616, 29366, 20998, 26512]),
           mk_fact (topic @ [26410, 26469, 21457, 23637, 26041, 21521])
             ([21069, 26223, 23637, 26395])
        ],
      mk_point (topic @ [30340, 31532] @ str_int (i + 1) @ [20010, 24212, 29992, 26696, 20363])
        [
           mk_fact (topic @ [23454, 38469, 24212, 29992, 26696, 20363])
             ([23454, 36341, 26696, 20363]),
           mk_fact (topic @ [25104, 21151, 32463, 39564, 20998, 20139])
             ([32463, 39564, 24635, 32467])
        ]
     ]"

definition summary_slide :: "ustring \<Rightarrow> json" where
  "summary_slide topic =
   mk_slide
     (topic @ [32, 45, 32, 24635, 32467])
     ([32463, 36807, 28145, 20837, 30340, 25506, 35752, 65292, 25105, 20204, 23545] @ topic @ [26377, 20102, 20840, 38754, 30340, 20102, 35299, 65292, 29616, 22312, 35753, 25105, 20204, 22238, 39038, 19968, 19979, 26368, 37325, 35201, 30340, 21457, 29616, 21644, 26410, 26469, 30340, 21457, 23637, 26041, 21521, 12290])
     [
      mk_point (topic @ [20027, 35201, 20869, 23481, 22238, 39038])
        [
           mk_fact ([28085, 30422, 30340] @ topic @ [20851, 38190, 30693, 35782, 28857])
             ([26680, 24515, 35201, 28857]),
           mk_fact (topic @ [37325, 35201, 30340, 25968, 25454, 21644, 26696, 20363])
             ([25968, 25454, 25903, 25745])
        ],
      mk_point (topic @ [20851, 38190, 35201, 28857, 24635, 32467])
        [
           mk_fact (topic @ [26368, 37325, 35201, 30340, 20960, 20010, 26041, 38754])
             ([37325, 28857, 20869, 23481]),
           mk_fact (topic @ [38656, 35201, 37325, 28857, 20851, 27880, 30340, 20869, 23481])
             ([20851, 27880, 37325, 28857])
        ],
      mk_point (topic @ [26410, 26469, 23637, 26395])
        [
           mk_fact (topic @ [21457, 23637, 36235, 21183, 39044, 27979])
             ([21457, 23637, 21069, 26223]),
           mk_fact (topic @ [28508, 22312, 26426, 36935, 20998, 26512])
             ([26426, 20250, 35782, 21035])
        ],
      mk_point (topic @ [34892, 21160, 24314, 35758])
        [
           mk_fact (topic @ [20855, 20307, 23454, 26045, 24314, 35758])
             ([25805, 20316, 25351, 23548]),
           mk_fact (topic @ [19979, 19968, 27493, 34892, 21160, 35745, 21010])
             ([34892, 21160, 26041, 26696])
        ]
     ]"

definition generate_fallback_content :: "LLMApi \<Rightarrow> ustring \<Rightarrow> int \<Rightarrow> json list" where
  "generate_fallback_content self topic num_pages =
     [intro_slide topic]
     @ map (middle_slide topic) [1 .. num_pages - 2]
     @ (if num_pages > 1 then [summary_slide topic] else [])"

subsection \<open>The HTTP call\<close>

text \<open>
  The outcome of the one \<open>requests.post\<close> call is an input from the environment: either
  the call raises, or it returns a response with a status code, a text and the result of
  \<open>response.json()\<close> (\<open>None\<close> when that raises). The request itself is not modelled.
\<close>

datatype http_outcome =
    PostRaises
  | Response int ustring "json option"

text \<open>\<open>v[key]\<close> for a string key and \<open>v[0]\<close>, on any JSON value.\<close>

definition getitem_str :: "json \<Rightarrow> ustring \<Rightarrow> error + json" where
  "getitem_str v k =
     (case v of
        JDict d \<Rightarrow> (case map_of d k of None \<Rightarrow> Inl KeyError | Some x \<Rightarrow> Inr x)
      | _ \<Rightarrow> Inl TypeError)"

definition getitem_0 :: "json \<Rightarrow> error + json" where
  "getitem_0 v =
     (case v of
        JList xs \<Rightarrow> (case xs of [] \<Rightarrow> Inl IndexError | x # _ \<Rightarrow> Inr x)
      | JStr s \<Rightarrow> (case s of [] \<Rightarrow> Inl IndexError | c # _ \<Rightarrow> Inr (JStr [c]))
      | JDict d \<Rightarrow> Inl KeyError
      | _ \<Rightarrow> Inl TypeError)"

definition call_llm :: "LLMApi \<Rightarrow> http_outcome \<Rightarrow> error + json" where
  "call_llm self net =
     (if falsy_str (api_key self) then Inl ValueError
      else
        (case net of
           PostRaises \<Rightarrow> Inl RequestException
         | Response status_code text body \<Rightarrow>
             if status_code \<noteq> 200 then Inl (ApiError status_code text)
             else
               (case body of
                  None \<Rightarrow> Inl JSONDecodeError
                | Some result \<Rightarrow>
                    then_do (getitem_str result (ascii ''choices'')) (\<lambda>choices.
                    then_do (getitem_0 choices) (\<lambda>choice.
                    then_do (getitem_str choice (ascii ''message'')) (\<lambda>message.
                    getitem_str message (ascii ''content'')))))))"

subsection \<open>Heuristic text extraction\<close>

text \<open>
  The loop of \<open>_extract_content_from_text\<close> keeps the finished pages, the page being built
  and the point being built. In the source \<open>current_point\<close> is the dict that was last
  appended to \<open>current_page["points"]\<close>, so a fact appended to it is appended to the last
  point of the current page too; the model writes both.
\<close>

record point =
  pt_main_point :: ustring
  pt_supporting_facts :: "json list"

record page =
  pg_title :: ustring
  pg_summary :: ustring
  pg_points :: "point list"

record extract_state =
  pages :: "json list"
  current_page :: "page option"
  current_point :: "point option"

definition point_json :: "point \<Rightarrow> json" where
  "point_json p = mk_point (pt_main_point p) (pt_supporting_facts p)"

definition page_json :: "page \<Rightarrow> json" where
  "page_json p = mk_slide (pg_title p) (pg_summary p) (map point_json (pg_points p))"

definition page_keywords :: "ustring list" where
  "page_keywords = [[31532], ascii ''page'', ascii ''slide'', [39029]]"

definition summary_markers :: "ustring list" where
  "summary_markers = [[24635, 32467], ascii ''summary'', [27010, 36848]]"

definition bullet_markers :: "ustring list" where
  "bullet_markers = [ascii ''-'', [8226], ascii ''*'', ascii ''1.'', ascii ''2.'', ascii ''3.'']"

definition indent_markers :: "ustring list" where
  "indent_markers = [[32, 32], [9], [32, 32, 45], [32, 32, 8226]]"

definition extract_line :: "pylib \<Rightarrow> extract_state \<Rightarrow> ustring \<Rightarrow> extract_state" where
  "extract_line L st raw =
     (let line = py_strip raw in
      if line = [] then st
      else if list_ex (\<lambda>keyword. contains keyword (str_lower L line)) page_keywords then
        st \<lparr> pages := (case current_page st of
                          None \<Rightarrow> pages st
                        | Some cp \<Rightarrow> pages st @ [page_json cp]),
             current_page := Some \<lparr> pg_title = line,
                                    pg_summary = line @ [30340, 20027, 35201, 20869, 23481, 27010, 36848],
                                    pg_points = [] \<rparr>,
             current_point := None \<rparr>
      else if current_page st \<noteq> None \<and> startswith_any line summary_markers then
        st \<lparr> current_page :=
               map_option (\<lambda>cp. cp \<lparr> pg_summary :=
                                        (if 58 \<in> set line then after_first 58 line else line) \<rparr>)
                          (current_page st) \<rparr>
      else if current_page st \<noteq> None \<and> startswith_any line bullet_markers then
        (let point_text = lstrip_chars [45, 8226, 42, 49, 50, 51, 52, 53, 54, 55, 56, 57, 46, 32] line in
         if point_text \<noteq> [] then
           (let new_point = \<lparr> pt_main_point = point_text, pt_supporting_facts = [] \<rparr> in
            st \<lparr> current_point := Some new_point,
                 current_page :=
                   map_option (\<lambda>cp. cp \<lparr> pg_points := pg_points cp @ [new_point] \<rparr>)
                              (current_page st) \<rparr>)
         else st)
      else if current_point st \<noteq> None \<and> startswith_any line indent_markers then
        (let fact = lstrip_chars [32, 9, 45, 8226, 42] line in
         if fact \<noteq> [] then
           st \<lparr> current_point :=
                  map_option (\<lambda>pt. pt \<lparr> pt_supporting_facts := pt_supporting_facts pt @ [JStr fact] \<rparr>)
                             (current_point st),
                current_page :=
                  map_option
                    (\<lambda>cp. cp \<lparr> pg_points :=
                               butlast (pg_points cp) @
                               map (\<lambda>pt. pt \<lparr> pt_supporting_facts := pt_supporting_facts pt @ [JStr fact] \<rparr>)
                                   (drop (length (pg_points cp) - 1) (pg_points cp)) \<rparr>)
                    (current_page st) \<rparr>
         else st)
      else st)"

text \<open>The page that the padding loop appends when \<open>len(pages) + 1 = n\<close>.\<close>

definition pad_point :: "int \<Rightarrow> nat \<Rightarrow> json" where
  "pad_point n i =
     mk_point ([35201, 28857] @ str_int n @ [45] @ str_int (int i + 1))
       [mk_fact ([20107, 23454] @ str_int n @ [45] @ str_int (int i + 1) @ [45, 49])
                [31616, 35201, 35828, 26126],
        mk_fact ([20107, 23454] @ str_int n @ [45] @ str_int (int i + 1) @ [45, 50])
                [31616, 35201, 35828, 26126]]"

definition pad_page :: "int \<Rightarrow> json" where
  "pad_page n =
     mk_slide ([31532] @ str_int n @ [39029])
              ([31532] @ str_int n @ [39029, 30340, 20027, 35201, 20869, 23481, 27010, 36848])
              (map (pad_point n) [0 ..< 3])"

function pad_pages :: "json list \<Rightarrow> int \<Rightarrow> json list" where
  "pad_pages ps num_pages =
     (if int (length ps) < num_pages
      then pad_pages (ps @ [pad_page (int (length ps) + 1)]) num_pages
      else ps)"
  by pat_completeness auto
termination
  by (relation "measure (\<lambda>(ps, n). nat (n - int (length ps)))") auto

declare pad_pages.simps [simp del]

definition extract_content_from_text :: "pylib \<Rightarrow> ustring \<Rightarrow> int \<Rightarrow> json list" where
  "extract_content_from_text L text num_pages =
     (let st = foldl (extract_line L)
                 \<lparr> pages = [], current_page = None, current_point = None \<rparr>
                 (split_char 10 text);
          found = (case current_page st of
                     None \<Rightarrow> pages st
                   | Some cp \<Rightarrow> pages st @ [page_json cp]);
          padded = pad_pages found num_pages
      in if int (length padded) > num_pages then slice_to num_pages padded else padded)"

subsection \<open>Response parsing\<close>

definition clean_response :: "ustring \<Rightarrow> ustring" where
  "clean_response response =
     (let c0 = py_strip response;
          c1 = (if startswith c0 (ascii ''```json'') then drop 7 c0 else c0);
          c2 = (if endswith c1 (ascii ''```'') then take (length c1 - 3) c1 else c1)
      in py_strip c2)"

text \<open>
  \<open>_parse_outline_response\<close>. Its \<open>try\<close> block catches every exception and falls through
  to the text extraction, which is called outside the \<open>try\<close>. A response that is not a
  string has neither \<open>strip\<close> nor \<open>split\<close>: the first AttributeError is caught, the second
  one leaves the function.
\<close>

definition parse_outline_response :: "pylib \<Rightarrow> LLMApi \<Rightarrow> json \<Rightarrow> int \<Rightarrow> error + json list" where
  "parse_outline_response L self response num_pages =
     (case response of
        JStr r \<Rightarrow>
          (case json_loads L (clean_response r) of
             Some (JList content) \<Rightarrow>
               if int (length content) = num_pages then Inr content
               else if int (length content) > num_pages then Inr (slice_to num_pages content)
               else Inr (content @
                         generate_fallback_content self [34917, 20805, 20869, 23481]
                           (num_pages - int (length content)))
           | _ \<Rightarrow> Inr (extract_content_from_text L r num_pages))
      | _ \<Rightarrow> Inl AttributeError)"

subsection \<open>generate\_outline\<close>

text \<open>\<open>response[:200]\<close>, evaluated for the diagnostic print: only strings and lists slice.\<close>

definition preview :: "json \<Rightarrow> error + unit" where
  "preview response =
     (case response of
        JStr _ \<Rightarrow> Inr ()
      | JList _ \<Rightarrow> Inr ()
      | _ \<Rightarrow> Inl TypeError)"

definition outline_try_body :: "pylib \<Rightarrow> LLMApi \<Rightarrow> http_outcome \<Rightarrow> int \<Rightarrow> error + json list" where
  "outline_try_body L self net num_pages =
     then_do (call_llm self net) (\<lambda>response.
     then_do (preview response) (\<lambda>_.
     parse_outline_response L self response num_pages))"

text \<open>
  \<open>generate_outline\<close>: the \<open>try\<close> body, and the handler \<open>except Exception\<close> that returns the
  fallback content. The diagnostic prints are not modelled.
\<close>

definition generate_outline ::
    "pylib \<Rightarrow> LLMApi \<Rightarrow> http_outcome \<Rightarrow> ustring \<Rightarrow> int \<Rightarrow> error + json list" where
  "generate_outline L self net topic num_pages =
     (case outline_try_body L self net num_pages of
        Inr result \<Rightarrow> Inr result
      | Inl e \<Rightarrow> Inr (generate_fallback_content self topic num_pages))"

section \<open>The presentation writer (writer/ppt\_writer.py)\<close>

subsection \<open>Documents\<close>

text \<open>
  The part of a python-pptx document that the writer reads and builds: a presentation
  has slide layouts and slides; a layout has a name and placeholders, each of a type
  (1 is the title placeholder); a slide has shapes, which are placeholders taken from its
  layout or text boxes; a text frame is a list of paragraphs, a paragraph has a text,
  a font and runs appended to it. Sizes are in points, positions in EMU.
\<close>

type_synonym rgb = "nat \<times> nat \<times> nat"

datatype alignment = LEFT | CENTER

record run =
  run_text :: ustring
  run_size :: "nat option"
  run_color :: "rgb option"

record text_par =
  par_text :: ustring
  par_size :: "nat option"
  par_bold :: "bool option"
  par_color :: "rgb option"
  par_space_after :: "nat option"
  par_space_before :: "nat option"
  par_alignment :: "alignment option"
  par_runs :: "run list"

record text_frame =
  word_wrap :: "bool option"
  paragraphs :: "text_par list"

record box =
  box_left :: int
  box_top :: int
  box_width :: int
  box_height :: int

datatype shape =
    Placeholder int text_frame
  | TextBox box text_frame

record layout =
  layout_name :: ustring
  layout_placeholders :: "int list"

record slide =
  slide_layout :: layout
  shapes :: "shape list"

record presentation =
  slide_layouts :: "layout list"
  slides :: "slide list"

text \<open>
  The files: \<open>Presentation(path)\<close> gives a document or raises, \<open>Presentation()\<close> gives the
  default template of the library, and \<open>prs.save(path)\<close> succeeds or raises.
\<close>

record files =
  open_file :: "ustring \<Rightarrow> presentation option"
  default_template :: presentation
  can_save :: "ustring \<Rightarrow> bool"

definition empty_paragraph :: text_par where
  "empty_paragraph =
     \<lparr> par_text = [], par_size = None, par_bold = None, par_color = None,
       par_space_after = None, par_space_before = None, par_alignment = None,
       par_runs = [] \<rparr>"

text \<open>A new text frame, and one after \<open>clear()\<close>, holds a single empty paragraph.\<close>

definition cleared_frame :: text_frame where
  "cleared_frame = \<lparr> word_wrap = None, paragraphs = [empty_paragraph] \<rparr>"

text \<open>
  \<open>slides.add_slide(layout)\<close> copies the placeholders of the layout to the new slide, except
  the date (16), footer (15) and slide number (13) placeholders.
\<close>

definition add_slide :: "layout \<Rightarrow> slide" where
  "add_slide l =
     \<lparr> slide_layout = l,
       shapes = map (\<lambda>t. Placeholder t cleared_frame)
                  (filter (\<lambda>t. t \<noteq> 16 \<and> t \<noteq> 15 \<and> t \<noteq> 13) (layout_placeholders l)) \<rparr>"

text \<open>\<open>prs.slide_layouts[i]\<close> for an index that is not negative.\<close>

definition layout_at :: "presentation \<Rightarrow> nat \<Rightarrow> error + layout" where
  "layout_at prs i =
     (if i < length (slide_layouts prs) then Inr (slide_layouts prs ! i) else Inl IndexError)"

text \<open>
  \<open>hasattr(shape, 'placeholder_format')\<close>: the property exists on every shape and raises
  ValueError on a shape that is not a placeholder, which \<open>hasattr\<close> does not catch. The
  result is the placeholder type of each shape, up to the first shape that raises.
\<close>

fun placeholder_types :: "shape list \<Rightarrow> error + int list" where
  "placeholder_types [] = Inr []"
| "placeholder_types (Placeholder t f # rest) =
     then_do (placeholder_types rest) (\<lambda>ts. Inr (t # ts))"
| "placeholder_types (TextBox b f # rest) = Inl ValueError"

subsection \<open>Operators on JSON values\<close>

text \<open>\<open>key in v\<close> for a string key, iteration over \<open>v\<close>, and the text of \<open>v\<close> in an f-string.\<close>

definition py_in :: "ustring \<Rightarrow> json \<Rightarrow> error + bool" where
  "py_in k v =
     (case v of
        JDict d \<Rightarrow> Inr (k \<in> set (map fst d))
      | JList xs \<Rightarrow> Inr (JStr k \<in> set xs)
      | JStr s \<Rightarrow> Inr (contains k s)
      | _ \<Rightarrow> Inl TypeError)"

definition py_iter :: "json \<Rightarrow> error + json list" where
  "py_iter v =
     (case v of
        JList xs \<Rightarrow> Inr xs
      | JStr s \<Rightarrow> Inr (map (\<lambda>c. JStr [c]) s)
      | JDict d \<Rightarrow> Inr (map (\<lambda>kv. JStr (fst kv)) d)
      | _ \<Rightarrow> Inl TypeError)"

definition py_str :: "pylib \<Rightarrow> json \<Rightarrow> ustring" where
  "py_str L v = (case v of JStr s \<Rightarrow> s | _ \<Rightarrow> py_repr L v)"

subsection \<open>Filling the content box\<close>

text \<open>
  The run that \<open>_fill_content_with_formatting\<close> appends for one supporting fact. The test
  \<open>isinstance(fact, dict) and "fact" in fact and "explanation" in fact\<close> holds exactly when
  both lookups succeed; then both texts are joined by a colon, otherwise the value gives
  its own text. The setters of python-pptx are taken to succeed on strings, so the
  handlers around the formatting steps have no branch in the model.
\<close>

definition fact_run :: "pylib \<Rightarrow> json \<Rightarrow> run" where
  "fact_run L item =
     (case (dict_get item (ascii ''fact''), dict_get item (ascii ''explanation'')) of
        (Some f, Some e) \<Rightarrow>
          \<lparr> run_text = [10, 32, 32, 32, 8226, 32] @ py_str L f @ ascii '': '' @ py_str L e,
            run_size = Some 11,
            run_color = Some (52, 73, 94) \<rparr>
      | _ \<Rightarrow>
          \<lparr> run_text = [10, 32, 32, 32, 8226, 32] @ py_str L item,
            run_size = Some 11,
            run_color = Some (52, 73, 94) \<rparr>)"

definition summary_paragraph :: "ustring \<Rightarrow> text_par" where
  "summary_paragraph t =
     \<lparr> par_text = t, par_size = Some 14, par_bold = Some True, par_color = Some (52, 73, 94),
       par_space_after = Some 8, par_space_before = None, par_alignment = Some LEFT,
       par_runs = [] \<rparr>"

definition main_point_paragraph :: "ustring \<Rightarrow> text_par" where
  "main_point_paragraph t =
     \<lparr> par_text = t, par_size = Some 13, par_bold = Some True, par_color = Some (44, 62, 80),
       par_space_after = Some 4, par_space_before = Some 6, par_alignment = Some LEFT,
       par_runs = [] \<rparr>"

definition simple_point_paragraph :: "ustring \<Rightarrow> text_par" where
  "simple_point_paragraph t =
     \<lparr> par_text = t, par_size = Some 13, par_bold = Some True, par_color = Some (44, 62, 80),
       par_space_after = Some 6, par_space_before = None, par_alignment = Some LEFT,
       par_runs = [] \<rparr>"

text \<open>
  The loop over \<open>enumerate(page_content["points"], 1)\<close>. An exception of the loop (the
  supporting facts of a point cannot be iterated) is caught by the handler of the whole
  function, which only prints: the paragraphs added so far stay and the rest is skipped.
\<close>

fun fill_points :: "pylib \<Rightarrow> int \<Rightarrow> json list \<Rightarrow> text_par list \<Rightarrow> text_par list" where
  "fill_points L i [] ps = ps"
| "fill_points L i (point # rest) ps =
     (case dict_get point (ascii ''main_point'') of
        Some mp \<Rightarrow>
          (let p = main_point_paragraph (str_int i @ ascii ''. '' @ py_str L mp) in
           case dict_get point (ascii ''supporting_facts'') of
             None \<Rightarrow> fill_points L (i + 1) rest (ps @ [p])
           | Some facts \<Rightarrow>
               (case py_iter facts of
                  Inl e \<Rightarrow> ps @ [p]
                | Inr fs \<Rightarrow>
                    fill_points L (i + 1) rest (ps @ [p \<lparr> par_runs := map (fact_run L) fs \<rparr>])))
      | None \<Rightarrow>
          fill_points L (i + 1) rest
            (ps @ [simple_point_paragraph (str_int i @ ascii ''. '' @ py_str L point)]))"

definition fill_summary :: "pylib \<Rightarrow> json \<Rightarrow> text_par list \<Rightarrow> error + text_par list" where
  "fill_summary L page_content ps =
     then_do (py_in (ascii ''summary'') page_content) (\<lambda>present.
       if present then
         (case getitem_str page_content (ascii ''summary'') of
            Inl e \<Rightarrow> Inl e
          | Inr s \<Rightarrow> Inr (ps @ [summary_paragraph ([128203, 32] @ py_str L s)]))
       else Inr ps)"

text \<open>
  \<open>_fill_content_with_formatting\<close>, as the text frame it leaves in the box. When the
  summary cannot be read the paragraph for it has already been added, empty.
\<close>

definition fill_content_with_formatting :: "pylib \<Rightarrow> json \<Rightarrow> text_frame" where
  "fill_content_with_formatting L page_content =
     \<lparr> word_wrap = Some True,
       paragraphs =
         (case py_in (ascii ''summary'') page_content of
            Inl e \<Rightarrow> [empty_paragraph]
          | Inr _ \<Rightarrow>
              (case fill_summary L page_content [empty_paragraph] of
                 Inl e \<Rightarrow> [empty_paragraph, empty_paragraph]
               | Inr ps \<Rightarrow>
                   (case then_do (py_in (ascii ''points'') page_content) (\<lambda>present.
                           if present
                           then then_do (getitem_str page_content (ascii ''points'')) py_iter
                           else Inr [])
                    of Inl e \<Rightarrow> ps
                     | Inr points \<Rightarrow> fill_points L 1 points ps))) \<rparr>"

subsection \<open>Content box and title of a slide\<close>

definition content_box :: box where
  "content_box = \<lparr> box_left = 457200, box_top = 1097280, box_width = 8229600, box_height = 5029200 \<rparr>"

definition title_box :: box where
  "title_box = \<lparr> box_left = 457200, box_top = 182880, box_width = 8229600, box_height = 731520 \<rparr>"

definition is_kept :: "shape \<Rightarrow> bool" where
  "is_kept s = (case s of Placeholder t f \<Rightarrow> t = 1 | TextBox b f \<Rightarrow> True)"

text \<open>
  \<open>_create_custom_content_box\<close>: the placeholders are recorded, the text box is added and
  filled, then the recorded placeholders that are not title placeholders are removed.
  Every exception is caught and printed.
\<close>

definition create_custom_content_box :: "pylib \<Rightarrow> slide \<Rightarrow> json \<Rightarrow> slide" where
  "create_custom_content_box L sl page_content =
     (case placeholder_types (shapes sl) of
        Inl e \<Rightarrow> sl
      | Inr original_placeholders \<Rightarrow>
          sl \<lparr> shapes := filter is_kept (shapes sl)
                          @ [TextBox content_box (fill_content_with_formatting L page_content)] \<rparr>)"

definition title_paragraph :: "ustring \<Rightarrow> text_par" where
  "title_paragraph t =
     \<lparr> par_text = t, par_size = Some 28, par_bold = Some True, par_color = Some (44, 62, 80),
       par_space_after = None, par_space_before = None, par_alignment = Some CENTER,
       par_runs = [] \<rparr>"

text \<open>
  The search of \<open>_set_slide_title\<close> for the first title placeholder: its position, or
  \<open>None\<close>; a text box met before it raises (see \<open>placeholder_types\<close>).
\<close>

fun find_title_placeholder :: "shape list \<Rightarrow> error + nat option" where
  "find_title_placeholder [] = Inr None"
| "find_title_placeholder (Placeholder t f # rest) =
     (if t = 1 then Inr (Some 0)
      else then_do (find_title_placeholder rest) (\<lambda>r. Inr (map_option Suc r)))"
| "find_title_placeholder (TextBox b f # rest) = Inl ValueError"

text \<open>
  \<open>_set_slide_title\<close>. Assigning the text of a frame replaces what the frame held; the
  model keeps the assigned text in one paragraph, which \<open>_format_title\<close> then styles.
  The library raises TypeError for a text that is not a string. Every exception is
  caught: what was done before it stays.
\<close>

definition set_slide_title :: "slide \<Rightarrow> json \<Rightarrow> slide" where
  "set_slide_title sl title_text =
     (case find_title_placeholder (shapes sl) of
        Inl e \<Rightarrow> sl
      | Inr (Some k) \<Rightarrow>
          (case title_text of
             JStr t \<Rightarrow>
               sl \<lparr> shapes := (shapes sl)
                      [k := (case shapes sl ! k of
                               Placeholder ty f \<Rightarrow> Placeholder ty (f \<lparr> paragraphs := [title_paragraph t] \<rparr>)
                             | TextBox b f \<Rightarrow> TextBox b f)] \<rparr>
           | _ \<Rightarrow> sl)
      | Inr None \<Rightarrow>
          (case title_text of
             JStr t \<Rightarrow>
               sl \<lparr> shapes := shapes sl
                      @ [TextBox title_box (cleared_frame \<lparr> paragraphs := [empty_paragraph, title_paragraph t] \<rparr>)] \<rparr>
           | _ \<Rightarrow>
               sl \<lparr> shapes := shapes sl
                      @ [TextBox title_box (cleared_frame \<lparr> paragraphs := [empty_paragraph, empty_paragraph] \<rparr>)] \<rparr>))"

subsection \<open>Blank-deck mode\<close>

record PPTWriter =
  default_layouts :: "(ustring \<times> int) list"

definition PPTWriter_init :: PPTWriter where
  "PPTWriter_init =
     \<lparr> default_layouts = [([40664, 35748], 1), ([31616, 32422], 6), ([21830, 21153], 1)] \<rparr>"

text \<open>\<open>self.default_layouts.get(style, 1)\<close>; the style is \<open>None\<close> when it is not given.\<close>

definition layout_index_for :: "PPTWriter \<Rightarrow> ustring option \<Rightarrow> int" where
  "layout_index_for self style =
     (case style of
        None \<Rightarrow> 1
      | Some s \<Rightarrow> (case map_of (default_layouts self) s of None \<Rightarrow> 1 | Some i \<Rightarrow> i))"

text \<open>
  The loop of \<open>write_ppt\<close>. \<open>page["title"]\<close> is evaluated outside every handler, so a page
  without a title makes \<open>write_ppt\<close> raise.
\<close>

fun write_pages :: "pylib \<Rightarrow> json list \<Rightarrow> presentation \<Rightarrow> error + presentation" where
  "write_pages L [] prs = Inr prs"
| "write_pages L (page # rest) prs =
     then_do (layout_at prs 1) (\<lambda>l.
       let sl = create_custom_content_box L (add_slide l) page in
       then_do (getitem_str page (ascii ''title'')) (\<lambda>title_text.
         write_pages L rest (prs \<lparr> slides := slides prs @ [set_slide_title sl title_text] \<rparr>)))"

text \<open>
  \<open>write_ppt\<close> returns the output path; the model returns with it the document that was
  saved there. \<open>layout_index\<close> is computed from the style and not used afterwards.
\<close>

definition write_ppt ::
    "PPTWriter \<Rightarrow> pylib \<Rightarrow> files \<Rightarrow> json list \<Rightarrow> ustring \<Rightarrow> ustring option
       \<Rightarrow> error + ustring \<times> presentation" where
  "write_ppt self L fs formatted_content output_path style =
     (let prs = default_template fs;
          layout_index = layout_index_for self style
      in then_do (write_pages L formatted_content prs) (\<lambda>prs'.
           if can_save fs output_path then Inr (output_path, prs') else Inl SaveError))"

subsection \<open>Template mode\<close>

definition title_like :: "pylib \<Rightarrow> layout \<Rightarrow> bool" where
  "title_like L l \<longleftrightarrow>
     str_lower L (layout_name l)
       \<in> set [ascii ''title slide'', [26631, 39064, 24187, 28783, 29255], ascii ''title'']
     \<or> length (layout_placeholders l) = 1"

definition content_like :: "pylib \<Rightarrow> layout \<Rightarrow> bool" where
  "content_like L l \<longleftrightarrow>
     str_lower L (layout_name l)
       \<in> set [ascii ''title and content'', [26631, 39064, 21644, 20869, 23481], ascii ''content'']
     \<or> length (layout_placeholders l) \<ge> 2"

text \<open>
  \<open>_find_best_layout\<close>: the first layout that matches, else the first layout of the
  template, else \<open>None\<close> for a template without layouts.
\<close>

definition find_best_layout :: "pylib \<Rightarrow> layout list \<Rightarrow> ustring \<Rightarrow> layout option" where
  "find_best_layout L layouts layout_type =
     (case find (if layout_type = ascii ''title'' then title_like L else content_like L) layouts of
        Some l \<Rightarrow> Some l
      | None \<Rightarrow> (case layouts of [] \<Rightarrow> None | l # _ \<Rightarrow> Some l))"

text \<open>
  The layout of page \<open>i\<close>: the title layout for the first page when there is one,
  otherwise \<open>content_layout or new_prs.slide_layouts[1]\<close>; a layout object is always truthy.
\<close>

definition choose_layout ::
    "layout option \<Rightarrow> layout option \<Rightarrow> presentation \<Rightarrow> nat \<Rightarrow> error + layout" where
  "choose_layout title_layout content_layout new_prs i =
     (case (if i = 0 then title_layout else None) of
        Some l \<Rightarrow> Inr l
      | None \<Rightarrow> (case content_layout of Some l \<Rightarrow> Inr l | None \<Rightarrow> layout_at new_prs 1))"

definition fill_slide_content_with_template :: "pylib \<Rightarrow> slide \<Rightarrow> json \<Rightarrow> slide" where
  "fill_slide_content_with_template L sl page_content =
     (let sl' = create_custom_content_box L sl page_content in
      case getitem_str page_content (ascii ''title'') of
        Inl e \<Rightarrow> sl'
      | Inr title_text \<Rightarrow> set_slide_title sl' title_text)"

fun template_pages ::
    "pylib \<Rightarrow> layout option \<Rightarrow> layout option \<Rightarrow> nat \<Rightarrow> json list \<Rightarrow> presentation
       \<Rightarrow> error + presentation" where
  "template_pages L title_layout content_layout i [] new_prs = Inr new_prs"
| "template_pages L title_layout content_layout i (page # rest) new_prs =
     then_do (choose_layout title_layout content_layout new_prs i) (\<lambda>l.
       template_pages L title_layout content_layout (Suc i) rest
         (new_prs \<lparr> slides := slides new_prs
                      @ [fill_slide_content_with_template L (add_slide l) page] \<rparr>))"

text \<open>The \<open>try\<close> body of \<open>write_ppt_with_template\<close>; the template is opened twice.\<close>

definition template_try_body ::
    "pylib \<Rightarrow> files \<Rightarrow> json list \<Rightarrow> ustring \<Rightarrow> ustring \<Rightarrow> error + ustring \<times> presentation" where
  "template_try_body L fs formatted_content template_path output_path =
     (case open_file fs template_path of
        None \<Rightarrow> Inl PackageNotFoundError
      | Some prs \<Rightarrow>
          (let layouts = slide_layouts prs;
               title_layout = find_best_layout L layouts (ascii ''title'');
               content_layout = find_best_layout L layouts (ascii ''content'')
           in case open_file fs template_path of
                None \<Rightarrow> Inl PackageNotFoundError
              | Some new_prs \<Rightarrow>
                  then_do (template_pages L title_layout content_layout 0 formatted_content new_prs)
                    (\<lambda>prs'. if can_save fs output_path then Inr (output_path, prs')
                            else Inl SaveError)))"

definition write_ppt_with_template ::
    "PPTWriter \<Rightarrow> pylib \<Rightarrow> files \<Rightarrow> json list \<Rightarrow> ustring \<Rightarrow> ustring \<Rightarrow> ustring option
       \<Rightarrow> error + ustring \<times> presentation" where
  "write_ppt_with_template self L fs formatted_content template_path output_path style =
     (case template_try_body L fs formatted_content template_path output_path of
        Inr r \<Rightarrow> Inr r
      | Inl e \<Rightarrow> write_ppt self L fs formatted_content output_path style)"

section \<open>Values used in the examples\<close>

text \<open>
  A library for the examples: \<open>str.lower\<close> on ASCII letters, and \<open>json.loads\<close> on the few
  documents that the examples parse (every other text is rejected). The theorems below
  hold for every library; these values only instantiate them.
\<close>

definition ascii_lower :: "ustring \<Rightarrow> ustring" where
  "ascii_lower s = map (\<lambda>c. if 65 \<le> c \<and> c \<le> 90 then c + 32 else c) s"

definition demo_loads :: "ustring \<Rightarrow> json option" where
  "demo_loads s =
     (if s = ascii ''[1, 2, 3, 4, 5]'' then Some (JList [JInt 1, JInt 2, JInt 3, JInt 4, JInt 5])
      else if s = ascii ''[1, 2, 3]'' then Some (JList [JInt 1, JInt 2, JInt 3])
      else if s = ascii ''[1, 2]'' then Some (JList [JInt 1, JInt 2])
      else if s = ascii ''{}'' then Some (JDict [])
      else None)"

definition demo_lib :: pylib where
  "demo_lib = \<lparr> json_loads = demo_loads, str_lower = ascii_lower, py_repr = (\<lambda>_. []) \<rparr>"

definition demo_api :: LLMApi where
  "demo_api = LLMApi_init (Some (ascii ''sk-test'')) None (ascii ''gpt-3.5-turbo'')"

definition no_key_api :: LLMApi where
  "no_key_api = LLMApi_init None None (ascii ''gpt-3.5-turbo'')"

definition chat_reply :: "json \<Rightarrow> http_outcome" where
  "chat_reply content =
     Response 200 []
       (Some (JDict [(ascii ''choices'',
                      JList [JDict [(ascii ''message'',
                                     JDict [(ascii ''role'', JStr (ascii ''assistant'')),
                                            (ascii ''content'', content)])]])]))"

definition indented_text :: ustring where
  "indented_text = ascii ''page 1'' @ [10] @ ascii ''- point'' @ [10] @ ascii ''  fact''"

definition demo_page :: page where
  "demo_page = \<lparr> pg_title = ascii ''page 1'',
                   pg_summary = ascii ''page 1'' @ [30340, 20027, 35201, 20869, 23481, 27010, 36848],
                   pg_points = [] \<rparr>"

definition demo_point :: point where
  "demo_point = \<lparr> pt_main_point = ascii ''point'', pt_supporting_facts = [] \<rparr>"

text \<open>
  Documents for the examples: a default template with seven layouts, of which the second
  is the title and content layout, and a template with two layouts, neither of which has
  a content name or two placeholders.
\<close>

definition demo_default_template :: presentation where
  "demo_default_template =
     \<lparr> slide_layouts =
         [\<lparr> layout_name = ascii ''Title Slide'', layout_placeholders = [3, 4, 16, 15, 13] \<rparr>,
          \<lparr> layout_name = ascii ''Title and Content'', layout_placeholders = [1, 7, 16, 15, 13] \<rparr>,
          \<lparr> layout_name = ascii ''Section Header'', layout_placeholders = [1, 2, 16, 15, 13] \<rparr>,
          \<lparr> layout_name = ascii ''Two Content'', layout_placeholders = [1, 7, 7, 16, 15, 13] \<rparr>,
          \<lparr> layout_name = ascii ''Comparison'', layout_placeholders = [1, 2, 7, 2, 7, 16, 15, 13] \<rparr>,
          \<lparr> layout_name = ascii ''Title Only'', layout_placeholders = [1, 16, 15, 13] \<rparr>,
          \<lparr> layout_name = ascii ''Blank'', layout_placeholders = [16, 15, 13] \<rparr>],
       slides = [] \<rparr>"

definition blank_layout :: layout where
  "blank_layout = \<lparr> layout_name = ascii ''Blank'', layout_placeholders = [] \<rparr>"

definition title_only_layout :: layout where
  "title_only_layout = \<lparr> layout_name = ascii ''Title Only'', layout_placeholders = [1] \<rparr>"

definition demo_template :: presentation where
  "demo_template = \<lparr> slide_layouts = [blank_layout, title_only_layout], slides = [] \<rparr>"

definition demo_files :: files where
  "demo_files =
     \<lparr> open_file = (\<lambda>path. if path = ascii ''template.pptx'' then Some demo_template
                          else if path = ascii ''empty.pptx'' then Some \<lparr> slide_layouts = [], slides = [] \<rparr>
                          else None),
       default_template = demo_default_template,
       can_save = (\<lambda>path. True) \<rparr>"

definition demo_outline :: "json list" where
  "demo_outline =
     [mk_slide (ascii ''A'') (ascii ''first'') [mk_point (ascii ''p'') [mk_fact (ascii ''f'') (ascii ''e'')]],
      mk_slide (ascii ''B'') (ascii ''second'') [mk_point (ascii ''q'') [JStr (ascii ''g'')]]]"

section \<open>Properties of the outline client\<close>

subsection \<open>Lengths\<close>

lemma length_fallback:
  "length (generate_fallback_content self topic n) = (if n \<le> 1 then 1 else nat n)"
  by (auto simp: generate_fallback_content_def)

lemma length_pad_pages:
  "length (pad_pages ps n) = max (length ps) (nat n)"
proof (induction ps n rule: pad_pages.induct)
  case (1 ps n)
  show ?case
  proof (cases "int (length ps) < n")
    case True
    with 1 show ?thesis by (subst pad_pages.simps) auto
  next
    case False
    then show ?thesis by (subst pad_pages.simps) auto
  qed
qed

lemma length_slice_to:
  "0 \<le> n \<Longrightarrow> length (slice_to n xs) = min (nat n) (length xs)"
  by (simp add: slice_to_def)

lemma length_extract:
  "0 \<le> n \<Longrightarrow> int (length (extract_content_from_text L text n)) = n"
  by (auto simp: extract_content_from_text_def Let_def length_pad_pages length_slice_to)

lemma length_parse:
  assumes "1 \<le> n" "parse_outline_response L self response n = Inr r"
  shows "int (length r) = n"
  using assms
  by (auto simp: parse_outline_response_def length_extract length_slice_to length_fallback
      split: json.splits option.splits if_splits)

text \<open>
  Claim C1. For every topic and every \<open>num_pages\<close> from 1 to 20, \<open>generate_outline\<close> returns
  a list of exactly \<open>num_pages\<close> slides. The statement ranges over every library, every
  client configuration and every outcome of the HTTP call, so it covers the three paths:
  a response that parses to a JSON list of any length, a response that goes through the
  text extraction, and an exception that is answered by the fallback content.
\<close>

theorem generate_outline_length:
  assumes "1 \<le> n" "n \<le> 20"
  shows "\<exists>r. generate_outline L self net topic n = Inr r \<and> int (length r) = n"
proof (cases "outline_try_body L self net n")
  case (Inl e)
  then show ?thesis using assms by (simp add: generate_outline_def length_fallback)
next
  case (Inr r)
  then have "parse_outline_response L self response n = Inr r" if "call_llm self net = Inr response" for response
    using that by (auto simp: outline_try_body_def then_do_def split: sum.splits)
  with Inr have "int (length r) = n"
    using assms(1) length_parse by (auto simp: outline_try_body_def then_do_def split: sum.splits)
  with Inr show ?thesis by (simp add: generate_outline_def)
qed

lemma call_llm_demo: "call_llm demo_api (chat_reply c) = Inr c"
  by (simp add: call_llm_def demo_api_def LLMApi_init_def falsy_str_def chat_reply_def
      then_do_def getitem_str_def getitem_0_def ascii_def)

lemma call_llm_no_key: "call_llm no_key_api net = Inl ValueError"
  by (simp add: call_llm_def no_key_api_def LLMApi_init_def falsy_str_def)

lemma clean_demo5: "clean_response (ascii ''[1, 2, 3, 4, 5]'') = ascii ''[1, 2, 3, 4, 5]''"
  by (simp add: clean_response_def py_strip_def ascii_def is_space_def startswith_def endswith_def)

theorem generate_outline_length_witness:
  "(1::int) \<le> 3 \<and> (3::int) \<le> 20 \<and>
   (\<exists>r. generate_outline demo_lib demo_api (chat_reply (JStr (ascii ''[1, 2, 3, 4, 5]''))) (ascii ''Test'') 3 = Inr r
        \<and> int (length r) = 3) \<and>
   (\<exists>r. generate_outline demo_lib demo_api (chat_reply (JStr (ascii ''no outline here''))) (ascii ''Test'') 3 = Inr r
        \<and> int (length r) = 3) \<and>
   (\<exists>r. generate_outline demo_lib no_key_api PostRaises (ascii ''Test'') 3 = Inr r
        \<and> int (length r) = 3)"
  using generate_outline_length [of 3 demo_lib demo_api "chat_reply (JStr (ascii ''[1, 2, 3, 4, 5]''))" "ascii ''Test''"]
    generate_outline_length [of 3 demo_lib demo_api "chat_reply (JStr (ascii ''no outline here''))" "ascii ''Test''"]
    generate_outline_length [of 3 demo_lib no_key_api PostRaises "ascii ''Test''"]
  by simp

subsection \<open>Failures are answered by the fallback content\<close>

lemma try_body_no_key: "falsy_str (api_key self) \<Longrightarrow> outline_try_body L self net n = Inl ValueError"
  by (simp add: outline_try_body_def call_llm_def then_do_def)

lemma try_body_post_raises:
  "outline_try_body L self PostRaises n = Inl ValueError \<or> outline_try_body L self PostRaises n = Inl RequestException"
  by (simp add: outline_try_body_def call_llm_def then_do_def)

lemma try_body_bad_status:
  "status \<noteq> 200 \<Longrightarrow> \<exists>e. outline_try_body L self (Response status t b) n = Inl e"
  by (simp add: outline_try_body_def call_llm_def then_do_def)

lemma try_body_not_string:
  "call_llm self net = Inr v \<Longrightarrow> \<forall>s. v \<noteq> JStr s \<Longrightarrow> \<exists>e. outline_try_body L self net n = Inl e"
  by (cases v) (simp_all add: outline_try_body_def then_do_def preview_def parse_outline_response_def)

text \<open>
  Claim C2. \<open>generate_outline\<close> never raises: it always returns a list. Whenever a step of
  its \<open>try\<close> body raises, the result is the fallback content for the same topic and page
  count; that is so when the API key is unset, when the request raises, when the status
  is not 200, when the body of the reply does not parse, and when the content of the reply
  is not a string. (A JSON error on the content itself never reaches the handler:
  \<open>_parse_outline_response\<close> catches it and extracts from the text instead.)
\<close>

theorem generate_outline_never_raises:
  "(\<exists>r. generate_outline L self net topic n = Inr r) \<and>
   (falsy_str (api_key self) \<or> net = PostRaises
      \<or> (\<exists>status t b. net = Response status t b \<and> (status \<noteq> 200 \<or> b = None))
      \<or> (\<exists>v. call_llm self net = Inr v \<and> (\<forall>s. v \<noteq> JStr s))
      \<or> (\<exists>e. outline_try_body L self net n = Inl e)
    \<longrightarrow> generate_outline L self net topic n = Inr (generate_fallback_content self topic n))"
proof -
  have failing: "\<exists>e. outline_try_body L self net n = Inl e"
    if "falsy_str (api_key self) \<or> net = PostRaises
      \<or> (\<exists>status t b. net = Response status t b \<and> (status \<noteq> 200 \<or> b = None))
      \<or> (\<exists>v. call_llm self net = Inr v \<and> (\<forall>s. v \<noteq> JStr s))
      \<or> (\<exists>e. outline_try_body L self net n = Inl e)"
    using that try_body_no_key [of self L net n] try_body_post_raises [of L self n]
      try_body_not_string [of self net _ L n]
    by (auto simp: outline_try_body_def call_llm_def then_do_def)
  show ?thesis
    using failing by (auto simp: generate_outline_def split: sum.splits)
qed

theorem generate_outline_never_raises_witness:
  "falsy_str (api_key no_key_api) \<and>
   generate_outline demo_lib no_key_api PostRaises (ascii ''Test'') 3 =
     Inr (generate_fallback_content no_key_api (ascii ''Test'') 3) \<and>
   generate_outline demo_lib demo_api (Response 500 (ascii ''oops'') None) (ascii ''Test'') 3 =
     Inr (generate_fallback_content demo_api (ascii ''Test'') 3) \<and>
   call_llm demo_api (chat_reply JNull) = Inr JNull \<and>
   generate_outline demo_lib demo_api (chat_reply JNull) (ascii ''Test'') 3 =
     Inr (generate_fallback_content demo_api (ascii ''Test'') 3)"
  using generate_outline_never_raises [of demo_lib no_key_api PostRaises "ascii ''Test''" 3]
    generate_outline_never_raises [of demo_lib demo_api "Response 500 (ascii ''oops'') None" "ascii ''Test''" 3]
    generate_outline_never_raises [of demo_lib demo_api "chat_reply JNull" "ascii ''Test''" 3]
    call_llm_demo [of JNull]
  by (simp add: no_key_api_def LLMApi_init_def falsy_str_def)

subsection \<open>A JSON list is cut or padded to the page count\<close>

text \<open>
  Claim C4. When the content of the reply parses to a JSON list: a list of \<open>num_pages\<close>
  entries is returned as it is, a longer one is cut to its first \<open>num_pages\<close> entries, and a
  shorter one is followed by the fallback content for the placeholder topic and the
  missing number of pages, which has exactly that many slides.
\<close>

theorem json_list_adjusted_to_num_pages:
  assumes "call_llm self net = Inr (JStr r)"
    and "json_loads L (clean_response r) = Some (JList content)"
    and "0 \<le> n"
  shows "generate_outline L self net topic n =
           Inr (if int (length content) = n then content
                else if n < int (length content) then take (nat n) content
                else content @ generate_fallback_content self [34917, 20805, 20869, 23481]
                                 (n - int (length content)))
         \<and> (int (length content) < n \<longrightarrow>
              int (length (generate_fallback_content self [34917, 20805, 20869, 23481]
                             (n - int (length content)))) = n - int (length content))"
  using assms
  by (simp add: generate_outline_def outline_try_body_def then_do_def preview_def
      parse_outline_response_def slice_to_def length_fallback)

lemma clean_demo2: "clean_response (ascii ''[1, 2]'') = ascii ''[1, 2]''"
  by (simp add: clean_response_def py_strip_def ascii_def is_space_def startswith_def endswith_def)

lemma clean_demo3: "clean_response (ascii ''[1, 2, 3]'') = ascii ''[1, 2, 3]''"
  by (simp add: clean_response_def py_strip_def ascii_def is_space_def startswith_def endswith_def)

lemma loads_demo5: "json_loads demo_lib (ascii ''[1, 2, 3, 4, 5]'') = Some (JList [JInt 1, JInt 2, JInt 3, JInt 4, JInt 5])"
  by (simp add: demo_lib_def demo_loads_def)

lemma loads_demo3: "json_loads demo_lib (ascii ''[1, 2, 3]'') = Some (JList [JInt 1, JInt 2, JInt 3])"
  by (simp add: demo_lib_def demo_loads_def ascii_def)

lemma loads_demo2: "json_loads demo_lib (ascii ''[1, 2]'') = Some (JList [JInt 1, JInt 2])"
  by (simp add: demo_lib_def demo_loads_def ascii_def)

theorem json_list_adjusted_to_num_pages_witness:
  "generate_outline demo_lib demo_api (chat_reply (JStr (ascii ''[1, 2, 3]''))) (ascii ''Test'') 3 =
     Inr [JInt 1, JInt 2, JInt 3] \<and>
   generate_outline demo_lib demo_api (chat_reply (JStr (ascii ''[1, 2, 3, 4, 5]''))) (ascii ''Test'') 3 =
     Inr [JInt 1, JInt 2, JInt 3] \<and>
   generate_outline demo_lib demo_api (chat_reply (JStr (ascii ''[1, 2]''))) (ascii ''Test'') 5 =
     Inr ([JInt 1, JInt 2] @ generate_fallback_content demo_api [34917, 20805, 20869, 23481] 3) \<and>
   length (generate_fallback_content demo_api [34917, 20805, 20869, 23481] 3) = 3"
  using
    json_list_adjusted_to_num_pages [OF call_llm_demo, of demo_lib "ascii ''[1, 2, 3]''" _ 3 "ascii ''Test''"]
    json_list_adjusted_to_num_pages [OF call_llm_demo, of demo_lib "ascii ''[1, 2, 3, 4, 5]''" _ 3 "ascii ''Test''"]
    json_list_adjusted_to_num_pages [OF call_llm_demo, of demo_lib "ascii ''[1, 2]''" _ 5 "ascii ''Test''"]
  by (simp add: clean_demo2 clean_demo3 clean_demo5 loads_demo2 loads_demo3 loads_demo5)

subsection \<open>The fallback content\<close>

lemma intro_slide_points:
  "length (slide_points (intro_slide topic)) = 4 \<and>
   (\<forall>p \<in> set (slide_points (intro_slide topic)). length (point_facts p) = 2)"
  by (simp add: intro_slide_def slide_points_def point_facts_def dict_get_def list_items_def
      mk_slide_def mk_point_def mk_fact_def ascii_def)

lemma summary_slide_points:
  "length (slide_points (summary_slide topic)) = 4 \<and>
   (\<forall>p \<in> set (slide_points (summary_slide topic)). length (point_facts p) = 2)"
  by (simp add: summary_slide_def slide_points_def point_facts_def dict_get_def list_items_def
      mk_slide_def mk_point_def mk_fact_def ascii_def)

text \<open>
  Claim C5. The fallback content is a function of the topic and the page count alone: it
  does not depend on the client object. For more than one page its first slide is the
  introduction slide and its last slide is the summary slide; for one page it is the
  introduction slide alone. The introduction slide and the summary slide have four points
  with two facts each.
\<close>

theorem fallback_deterministic:
  "generate_fallback_content self1 topic n = generate_fallback_content self2 topic n \<and>
   (1 < n \<longrightarrow> hd (generate_fallback_content self1 topic n) = intro_slide topic \<and>
              last (generate_fallback_content self1 topic n) = summary_slide topic) \<and>
   (n = 1 \<longrightarrow> generate_fallback_content self1 topic n = [intro_slide topic]) \<and>
   length (slide_points (intro_slide topic)) = 4 \<and>
   (\<forall>p \<in> set (slide_points (intro_slide topic)). length (point_facts p) = 2) \<and>
   length (slide_points (summary_slide topic)) = 4 \<and>
   (\<forall>p \<in> set (slide_points (summary_slide topic)). length (point_facts p) = 2)"
  using intro_slide_points [of topic] summary_slide_points [of topic]
  by (simp add: generate_fallback_content_def)

theorem fallback_deterministic_witness:
  "generate_fallback_content demo_api (ascii ''Test'') 3 = generate_fallback_content no_key_api (ascii ''Test'') 3 \<and>
   (1::int) < 3 \<and>
   hd (generate_fallback_content demo_api (ascii ''Test'') 3) = intro_slide (ascii ''Test'') \<and>
   last (generate_fallback_content demo_api (ascii ''Test'') 3) = summary_slide (ascii ''Test'') \<and>
   generate_fallback_content demo_api (ascii ''Test'') 1 = [intro_slide (ascii ''Test'')] \<and>
   map (\<lambda>p. length (point_facts p)) (slide_points (intro_slide (ascii ''Test''))) = [2, 2, 2, 2] \<and>
   map (\<lambda>p. length (point_facts p)) (slide_points (summary_slide (ascii ''Test''))) = [2, 2, 2, 2]"
proof -
  have "map (\<lambda>p. length (point_facts p)) (slide_points s) = [2, 2, 2, 2]"
    if "length (slide_points s) = 4" "\<forall>p \<in> set (slide_points s). length (point_facts p) = 2" for s
    using that by (auto simp: length_Suc_conv numeral_eq_Suc)
  note counts = this
  note three = fallback_deterministic [of demo_api "ascii ''Test''" 3 demo_api]
  note one = fallback_deterministic [of demo_api "ascii ''Test''" 1 demo_api]
  have "generate_fallback_content demo_api (ascii ''Test'') 3 =
        generate_fallback_content no_key_api (ascii ''Test'') 3"
    using fallback_deterministic [of demo_api "ascii ''Test''" 3 no_key_api] by (rule conjunct1)
  moreover have "hd (generate_fallback_content demo_api (ascii ''Test'') 3) = intro_slide (ascii ''Test'')"
    and "last (generate_fallback_content demo_api (ascii ''Test'') 3) = summary_slide (ascii ''Test'')"
    using three by simp_all
  moreover have "generate_fallback_content demo_api (ascii ''Test'') 1 = [intro_slide (ascii ''Test'')]"
    using one by simp
  moreover have "map (\<lambda>p. length (point_facts p)) (slide_points (intro_slide (ascii ''Test''))) = [2, 2, 2, 2]"
    and "map (\<lambda>p. length (point_facts p)) (slide_points (summary_slide (ascii ''Test''))) = [2, 2, 2, 2]"
    using three by (simp_all add: counts)
  ultimately show ?thesis by simp
qed

text \<open>
  Claim C10. For \<open>num_pages = 0\<close> the fallback content is the introduction slide alone, a
  list of length 1, and this is what \<open>generate_outline\<close> returns whenever its \<open>try\<close> body
  raises.
\<close>

theorem fallback_zero_pages:
  "generate_fallback_content self topic 0 = [intro_slide topic] \<and>
   length (generate_fallback_content self topic 0) = 1 \<and>
   (\<forall>e. outline_try_body L self net 0 = Inl e \<longrightarrow>
        generate_outline L self net topic 0 = Inr [intro_slide topic])"
  by (simp add: generate_fallback_content_def generate_outline_def)

theorem fallback_zero_pages_witness:
  "outline_try_body demo_lib no_key_api PostRaises 0 = Inl ValueError \<and>
   generate_outline demo_lib no_key_api PostRaises (ascii ''Test'') 0 = Inr [intro_slide (ascii ''Test'')] \<and>
   length (generate_fallback_content no_key_api (ascii ''Test'') 0) = 1"
  using fallback_zero_pages [of no_key_api "ascii ''Test''" demo_lib PostRaises]
  by (simp add: outline_try_body_def call_llm_no_key then_do_def)

subsection \<open>Indented lines in the text extraction\<close>

text \<open>
  Every line is stripped before it is classified, so a line that is not empty never
  starts with a space or a tab: the branch that collects supporting facts cannot be taken.
\<close>

lemma py_strip_no_leading_space:
  assumes "py_strip raw \<noteq> []"
  shows "\<not> is_space (hd (py_strip raw))"
proof -
  obtain x xs where d: "dropWhile is_space raw = x # xs"
    using assms by (cases "dropWhile is_space raw") (auto simp: py_strip_def)
  then have nx: "\<not> is_space x"
    using hd_dropWhile [of is_space raw] by auto
  have "dropWhile is_space (rev xs @ [x]) = dropWhile is_space (rev xs) @ [x]"
    using nx by (simp add: dropWhile_append3)
  then have "py_strip raw = x # rev (dropWhile is_space (rev xs))"
    using d by (simp add: py_strip_def)
  then show ?thesis using nx by simp
qed

lemma indent_branch_unreachable:
  "py_strip raw \<noteq> [] \<Longrightarrow> \<not> startswith_any (py_strip raw) indent_markers"
  using py_strip_no_leading_space [of raw]
  by (cases "py_strip raw")
     (auto simp: startswith_any_def indent_markers_def startswith_def is_space_def)

lemma split_demo: "split_char 10 indented_text = [ascii ''page 1'', ascii ''- point'', ascii ''  fact'']"
  by (simp add: indented_text_def ascii_def)

lemmas line_eval =
  extract_line_def Let_def py_strip_def is_space_def ascii_def demo_lib_def ascii_lower_def
  page_keywords_def summary_markers_def bullet_markers_def indent_markers_def
  startswith_any_def startswith_def lstrip_chars_def

lemma demo_line1:
  "extract_line demo_lib \<lparr> pages = [], current_page = None, current_point = None \<rparr> (ascii ''page 1'')
   = \<lparr> pages = [], current_page = Some demo_page, current_point = None \<rparr>"
  by (simp add: line_eval demo_page_def)

lemma demo_line2:
  "extract_line demo_lib \<lparr> pages = [], current_page = Some demo_page, current_point = None \<rparr> (ascii ''- point'')
   = \<lparr> pages = [], current_page = Some (demo_page \<lparr> pg_points := [demo_point] \<rparr>),
       current_point = Some demo_point \<rparr>"
  by (simp add: line_eval demo_page_def demo_point_def)

lemma demo_line3:
  "extract_line demo_lib
     \<lparr> pages = [], current_page = Some (demo_page \<lparr> pg_points := [demo_point] \<rparr>),
       current_point = Some demo_point \<rparr> (ascii ''  fact'')
   = \<lparr> pages = [], current_page = Some (demo_page \<lparr> pg_points := [demo_point] \<rparr>),
       current_point = Some demo_point \<rparr>"
  by (simp add: line_eval demo_page_def demo_point_def)

lemma demo_fold:
  "foldl (extract_line demo_lib) \<lparr> pages = [], current_page = None, current_point = None \<rparr>
     (split_char 10 indented_text)
   = \<lparr> pages = [], current_page = Some (demo_page \<lparr> pg_points := [demo_point] \<rparr>),
       current_point = Some demo_point \<rparr>"
  by (simp add: split_demo demo_line1 demo_line2 demo_line3)

text \<open>
  Claim C3 says that an indented line below a point is appended to the supporting facts
  of that point. On the text \<open>page 1\<close>, \<open>- point\<close>, \<open>  fact\<close> (three lines) with one page asked
  for, the extraction returns the point with no supporting fact: the indented line is
  dropped.
\<close>

theorem indented_line_is_dropped:
  "extract_content_from_text demo_lib indented_text 1 =
     [mk_slide (ascii ''page 1'')
        (ascii ''page 1'' @ [30340, 20027, 35201, 20869, 23481, 27010, 36848])
        [mk_point (ascii ''point'') []]]"
  by (simp add: extract_content_from_text_def demo_fold
      page_json_def point_json_def pad_pages.simps demo_page_def demo_point_def)

section \<open>Properties of the presentation writer\<close>

subsection \<open>Supporting facts in the content box\<close>

lemma str_int_1: "str_int 1 = [49]"
  by (simp add: str_int_def str_nat.simps)

lemma fill_single_point:
  "fill_content_with_formatting L (mk_slide t s [mk_point mp [x]]) =
     \<lparr> word_wrap = Some True,
       paragraphs = [empty_paragraph,
                     summary_paragraph ([128203, 32] @ s),
                     (main_point_paragraph ([49, 46, 32] @ mp)) \<lparr> par_runs := [fact_run L x] \<rparr>] \<rparr>"
  by (simp add: fill_content_with_formatting_def fill_summary_def py_in_def getitem_str_def
      py_iter_def then_do_def mk_slide_def mk_point_def dict_get_def py_str_def str_int_1 ascii_def)

text \<open>
  Claim C6. For a fact given as a dict with a fact text and an explanation, and the same
  fact text given as a bare string, the writer appends runs that differ only in their
  text: the bare string gives the bullet prefix and the fact text, the dict gives the same
  followed by a colon, a space and the explanation; font size and colour are the same.
  A page whose single point has the one or the other fact gets the same paragraphs but
  for that run.
\<close>

theorem structured_and_legacy_fact_runs:
  assumes "dict_get item (ascii ''fact'') = Some (JStr f)"
    and "dict_get item (ascii ''explanation'') = Some (JStr e)"
  shows "run_text (fact_run L item) = run_text (fact_run L (JStr f)) @ ascii '': '' @ e \<and>
         run_text (fact_run L (JStr f)) = [10, 32, 32, 32, 8226, 32] @ f \<and>
         run_size (fact_run L item) = run_size (fact_run L (JStr f)) \<and>
         run_color (fact_run L item) = run_color (fact_run L (JStr f)) \<and>
         fact_run L item = (fact_run L (JStr f)) \<lparr> run_text := run_text (fact_run L (JStr f)) @ ascii '': '' @ e \<rparr> \<and>
         paragraphs (fill_content_with_formatting L (mk_slide t s [mk_point mp [item]])) =
           [empty_paragraph, summary_paragraph ([128203, 32] @ s),
            (main_point_paragraph ([49, 46, 32] @ mp)) \<lparr> par_runs := [fact_run L item] \<rparr>] \<and>
         paragraphs (fill_content_with_formatting L (mk_slide t s [mk_point mp [JStr f]])) =
           [empty_paragraph, summary_paragraph ([128203, 32] @ s),
            (main_point_paragraph ([49, 46, 32] @ mp)) \<lparr> par_runs := [fact_run L (JStr f)] \<rparr>]"
  using assms by (simp add: fill_single_point) (simp add: fact_run_def dict_get_def py_str_def)

theorem structured_and_legacy_fact_runs_witness:
  "dict_get (mk_fact (ascii ''f'') (ascii ''e'')) (ascii ''fact'') = Some (JStr (ascii ''f'')) \<and>
   dict_get (mk_fact (ascii ''f'') (ascii ''e'')) (ascii ''explanation'') = Some (JStr (ascii ''e'')) \<and>
   run_text (fact_run demo_lib (mk_fact (ascii ''f'') (ascii ''e''))) = [10, 32, 32, 32, 8226, 32, 102, 58, 32, 101] \<and>
   run_text (fact_run demo_lib (JStr (ascii ''f''))) = [10, 32, 32, 32, 8226, 32, 102] \<and>
   run_size (fact_run demo_lib (mk_fact (ascii ''f'') (ascii ''e''))) = run_size (fact_run demo_lib (JStr (ascii ''f'')))"
proof -
  have a: "dict_get (mk_fact (ascii ''f'') (ascii ''e'')) (ascii ''fact'') = Some (JStr (ascii ''f''))"
    and b: "dict_get (mk_fact (ascii ''f'') (ascii ''e'')) (ascii ''explanation'') = Some (JStr (ascii ''e''))"
    by (simp_all add: mk_fact_def dict_get_def ascii_def)
  show ?thesis
    using structured_and_legacy_fact_runs [OF a b, of demo_lib] a b
    by (simp add: ascii_def)
qed

subsection \<open>Layouts of the slides\<close>

lemma slide_layout_create [simp]:
  "slide_layout (create_custom_content_box L sl page) = slide_layout sl"
  by (simp add: create_custom_content_box_def split: sum.splits)

lemma slide_layout_set_title [simp]:
  "slide_layout (set_slide_title sl t) = slide_layout sl"
  by (simp add: set_slide_title_def split: sum.splits option.splits json.splits)

lemma slide_layout_fill_template [simp]:
  "slide_layout (fill_slide_content_with_template L sl page) = slide_layout sl"
  by (simp add: fill_slide_content_with_template_def Let_def split: sum.splits)

lemma slide_layout_add_slide [simp]: "slide_layout (add_slide l) = l"
  by (simp add: add_slide_def)

lemma write_pages_layouts:
  "write_pages L fc prs = Inr prs' \<Longrightarrow>
   slide_layouts prs' = slide_layouts prs \<and>
   map slide_layout (slides prs') =
     map slide_layout (slides prs) @ replicate (length fc) (slide_layouts prs ! 1)"
proof (induction fc arbitrary: prs)
  case Nil
  then show ?case by simp
next
  case (Cons page rest)
  then show ?case
    by (auto simp: then_do_def layout_at_def Let_def replicate_append_same
        split: sum.splits if_splits)
qed

lemma write_pages_succeeds:
  "1 < length (slide_layouts prs) \<Longrightarrow>
   list_all (\<lambda>page. dict_get page (ascii ''title'') \<noteq> None) fc \<Longrightarrow>
   \<exists>prs'. write_pages L fc prs = Inr prs'"
proof (induction fc arbitrary: prs)
  case Nil
  then show ?case by simp
next
  case (Cons page rest)
  then obtain t where t: "getitem_str page (ascii ''title'') = Inr t"
    by (auto simp: getitem_str_def dict_get_def split: json.splits option.splits)
  show ?case
    using Cons.prems(1) Cons.prems(2) t
      Cons.IH [of "prs \<lparr> slides := slides prs @ [set_slide_title (create_custom_content_box L (add_slide (slide_layouts prs ! 1)) page) t] \<rparr>"]
    by (simp add: then_do_def layout_at_def Let_def)
qed

lemma write_ppt_ignores_style:
  "write_ppt self L fs fc out style = write_ppt self L fs fc out style'"
  by (simp add: write_ppt_def Let_def)


lemma choose_layout_some:
  "choose_layout tlay (Some c) p i =
     Inr (case (if i = 0 then tlay else None) of Some l \<Rightarrow> l | None \<Rightarrow> c)"
  by (simp add: choose_layout_def split: option.splits)

lemma template_pages_layouts:
  "template_pages L tlay (Some c) i fc p = Inr p' \<Longrightarrow>
   map slide_layout (slides p') =
     map slide_layout (slides p) @
     map (\<lambda>k. case (if k = 0 then tlay else None) of Some l \<Rightarrow> l | None \<Rightarrow> c)
         [i ..< i + length fc]"
proof (induction fc arbitrary: i p)
  case Nil
  then show ?case by simp
next
  case (Cons page rest)
  let ?l = "case (if i = 0 then tlay else None) of Some l \<Rightarrow> l | None \<Rightarrow> c"
  let ?p = "p \<lparr> slides := slides p @ [fill_slide_content_with_template L (add_slide ?l) page] \<rparr>"
  have step: "template_pages L tlay (Some c) (Suc i) rest ?p = Inr p'"
    using Cons.prems by (simp only: template_pages.simps choose_layout_some then_do_def sum.case)
  have "i < i + length (page # rest)"
    by simp
  then have "[i ..< i + length (page # rest)] = i # [Suc i ..< i + length (page # rest)]"
    by (rule upt_conv_Cons)
  moreover have "i + length (page # rest) = Suc i + length rest"
    by simp
  ultimately have upt: "[i ..< i + length (page # rest)] = i # [Suc i ..< Suc i + length rest]"
    by (simp only:)
  show ?case
    using Cons.IH [OF step] by (simp only: upt) simp
qed

lemma template_pages_succeeds:
  "\<exists>p'. template_pages L tlay (Some c) i fc p = Inr p'"
proof (induction fc arbitrary: i p)
  case Nil
  show ?case by simp
next
  case (Cons page rest)
  show ?case
    using Cons.IH by (simp only: template_pages.simps choose_layout_some then_do_def sum.case)
qed

lemma find_best_layout_fallthrough:
  assumes "\<not> list_ex (content_like L) (l0 # ls)"
  shows "find_best_layout L (l0 # ls) (ascii ''content'') = Some l0"
proof -
  have "find (content_like L) (l0 # ls) = None"
    using assms by (simp add: find_None_iff list_ex_iff)
  moreover have "ascii ''content'' \<noteq> ascii ''title''"
    by (simp add: ascii_def)
  ultimately show ?thesis
    by (simp add: find_best_layout_def)
qed


lemma find_best_layout_None: "find_best_layout L layouts t = None \<longleftrightarrow> layouts = []"
  by (cases layouts) (simp_all add: find_best_layout_def split: option.splits)

text \<open>
  Claim C9 says that in blank-deck mode the style selects the layout index of the deck.
  The writer looks the style up (the style "minimal" gives index 6), but every slide
  is added with the layout of index 1: the result of \<open>write_ppt\<close> is the same for every
  style, and for the style "minimal" both slides of the example deck have the layout of
  index 1, which is not the layout of index 6.
\<close>

lemma demo_outline_titles:
  "list_all (\<lambda>page. dict_get page (ascii ''title'') \<noteq> None) demo_outline"
  by (simp add: demo_outline_def mk_slide_def dict_get_def)

theorem style_does_not_select_layout:
  "layout_index_for PPTWriter_init (Some [31616, 32422]) = 6 \<and>
   write_ppt self L fs formatted_content output_path style =
     write_ppt self L fs formatted_content output_path None \<and>
   (\<exists>deck. write_ppt PPTWriter_init demo_lib demo_files demo_outline (ascii ''out.pptx'')
              (Some [31616, 32422]) = Inr (ascii ''out.pptx'', deck) \<and>
           map slide_layout (slides deck) =
             [slide_layouts demo_default_template ! 1, slide_layouts demo_default_template ! 1]) \<and>
   slide_layouts demo_default_template ! 1 \<noteq> slide_layouts demo_default_template ! 6"
proof -
  have idx: "layout_index_for PPTWriter_init (Some [31616, 32422]) = 6"
    by (simp add: layout_index_for_def PPTWriter_init_def)
  have same: "write_ppt self L fs formatted_content output_path style =
      write_ppt self L fs formatted_content output_path None"
    by (rule write_ppt_ignores_style)
  have "1 < length (slide_layouts demo_default_template)"
    by (simp add: demo_default_template_def)
  then obtain deck where deck: "write_pages demo_lib demo_outline demo_default_template = Inr deck"
    using write_pages_succeeds [OF _ demo_outline_titles] by blast
  have lay: "map slide_layout (slides deck) =
      [slide_layouts demo_default_template ! 1, slide_layouts demo_default_template ! 1]"
    using write_pages_layouts [OF deck]
    by (simp add: demo_outline_def demo_default_template_def)
  have run: "write_ppt PPTWriter_init demo_lib demo_files demo_outline (ascii ''out.pptx'')
              (Some [31616, 32422]) = Inr (ascii ''out.pptx'', deck)"
    using deck by (simp add: write_ppt_def Let_def demo_files_def then_do_def)
  have ne: "slide_layouts demo_default_template ! 1 \<noteq> slide_layouts demo_default_template ! 6"
    by (simp add: demo_default_template_def)
  from run lay have ex: "\<exists>deck. write_ppt PPTWriter_init demo_lib demo_files demo_outline (ascii ''out.pptx'')
              (Some [31616, 32422]) = Inr (ascii ''out.pptx'', deck) \<and>
           map slide_layout (slides deck) =
             [slide_layouts demo_default_template ! 1, slide_layouts demo_default_template ! 1]"
    by (intro exI conjI)
  show ?thesis
    by (intro conjI idx same ex ne)
qed

subsection \<open>Template mode falls back to blank-deck mode\<close>

lemma template_try_body_failures:
  assumes "open_file fs template_path = None \<or> \<not> can_save fs output_path
      \<or> (\<exists>prs. open_file fs template_path = Some prs \<and> slide_layouts prs = [] \<and> formatted_content \<noteq> [])"
  shows "\<exists>e. template_try_body L fs formatted_content template_path output_path = Inl e"
proof (cases "open_file fs template_path")
  case None
  then show ?thesis by (simp add: template_try_body_def)
next
  case (Some prs)
  show ?thesis
  proof (cases "slide_layouts prs = [] \<and> formatted_content \<noteq> []")
    case True
    then obtain page rest where fc: "formatted_content = page # rest"
      by (cases formatted_content) auto
    show ?thesis
      using Some True fc
      by (simp add: template_try_body_def Let_def find_best_layout_def then_do_def
          choose_layout_def layout_at_def)
  next
    case False
    with assms Some have "\<not> can_save fs output_path" by auto
    with Some show ?thesis
      by (simp add: template_try_body_def Let_def then_do_def split: sum.splits)
  qed
qed

text \<open>
  Claim C7. Whenever the \<open>try\<close> body of \<open>write_ppt_with_template\<close> raises (the template
  cannot be opened, it has no layout while there is a page to add, the deck cannot be
  saved, or any other exception), the outcome is the outcome of \<open>write_ppt\<close> on the same
  outline, output path and style.
\<close>

theorem template_failure_falls_back_to_blank_deck:
  "(open_file fs template_path = None \<or> \<not> can_save fs output_path
      \<or> (\<exists>prs. open_file fs template_path = Some prs \<and> slide_layouts prs = [] \<and> formatted_content \<noteq> [])
      \<or> (\<exists>e. template_try_body L fs formatted_content template_path output_path = Inl e))
   \<longrightarrow> write_ppt_with_template self L fs formatted_content template_path output_path style =
         write_ppt self L fs formatted_content output_path style"
  using template_try_body_failures [of fs template_path output_path formatted_content L]
  by (auto simp: write_ppt_with_template_def)

theorem template_failure_falls_back_to_blank_deck_witness:
  "open_file demo_files (ascii ''missing.pptx'') = None \<and>
   write_ppt_with_template PPTWriter_init demo_lib demo_files demo_outline
       (ascii ''missing.pptx'') (ascii ''out.pptx'') (Some [31616, 32422]) =
     write_ppt PPTWriter_init demo_lib demo_files demo_outline (ascii ''out.pptx'') (Some [31616, 32422]) \<and>
   open_file demo_files (ascii ''empty.pptx'') = Some \<lparr> slide_layouts = [], slides = [] \<rparr> \<and>
   write_ppt_with_template PPTWriter_init demo_lib demo_files demo_outline
       (ascii ''empty.pptx'') (ascii ''out.pptx'') None =
     write_ppt PPTWriter_init demo_lib demo_files demo_outline (ascii ''out.pptx'') None"
proof -
  have a: "open_file demo_files (ascii ''missing.pptx'') = None"
    by (simp add: demo_files_def ascii_def)
  have b: "open_file demo_files (ascii ''empty.pptx'') = Some \<lparr> slide_layouts = [], slides = [] \<rparr>"
    by (simp add: demo_files_def ascii_def)
  have c: "demo_outline \<noteq> []"
    by (simp add: demo_outline_def)
  show ?thesis
    using a b c
      template_failure_falls_back_to_blank_deck [of demo_files "ascii ''missing.pptx''" "ascii ''out.pptx''"
        demo_outline demo_lib PPTWriter_init "Some [31616, 32422]"]
      template_failure_falls_back_to_blank_deck [of demo_files "ascii ''empty.pptx''" "ascii ''out.pptx''"
        demo_outline demo_lib PPTWriter_init None]
    by simp
qed

subsection \<open>The content layout of a template\<close>

lemma demo_template_not_content_like:
  "\<not> list_ex (content_like demo_lib) (slide_layouts demo_template)"
  by (simp add: demo_template_def blank_layout_def title_only_layout_def content_like_def
      demo_lib_def ascii_lower_def ascii_def)

lemma demo_template_content_layout:
  "find_best_layout demo_lib (slide_layouts demo_template) (ascii ''content'') = Some blank_layout"
  using find_best_layout_fallthrough [of demo_lib blank_layout "[title_only_layout]"]
    demo_template_not_content_like
  by (simp add: demo_template_def)

text \<open>
  Claim C8 says that a template without a content-like layout gets the layout of index 1
  for the slides after the first. On the template with the layouts Blank and Title Only
  the layout chosen for the second page is Blank, the layout of index 0, and not Title
  Only, the layout of index 1.
\<close>

theorem content_layout_fallback_counterexample:
  "\<not> list_ex (content_like demo_lib) (slide_layouts demo_template) \<and>
   choose_layout (find_best_layout demo_lib (slide_layouts demo_template) (ascii ''title''))
                 (find_best_layout demo_lib (slide_layouts demo_template) (ascii ''content''))
                 demo_template 1 = Inr blank_layout \<and>
   layout_at demo_template 1 = Inr title_only_layout \<and>
   blank_layout \<noteq> title_only_layout"
  using demo_template_not_content_like
  by (simp add: demo_template_content_layout choose_layout_def layout_at_def)
     (simp add: demo_template_def blank_layout_def title_only_layout_def)

text \<open>
  Claim C8 as amended. When the template has a layout but none that is content-like,
  \<open>_find_best_layout\<close> returns the first layout of the template, which is the layout of
  every slide after the first in the deck that template mode saves; \<open>_find_best_layout\<close>
  never raises, and it returns \<open>None\<close> only for a template without layouts.
\<close>

theorem content_layout_falls_back_to_first_layout:
  assumes "open_file fs template_path = Some prs"
    and "slide_layouts prs = l0 # ls"
    and "\<not> list_ex (content_like L) (slide_layouts prs)"
    and "can_save fs output_path"
  shows "find_best_layout L (slide_layouts prs) (ascii ''content'') = Some l0 \<and>
         (0 < i \<longrightarrow> choose_layout title_layout (find_best_layout L (slide_layouts prs) (ascii ''content'')) new_prs i = Inr l0) \<and>
         (\<exists>deck. write_ppt_with_template self L fs formatted_content template_path output_path style
                   = Inr (output_path, deck) \<and>
                 drop (Suc (length (slides prs))) (map slide_layout (slides deck))
                   = replicate (length formatted_content - 1) l0) \<and>
         (find_best_layout L layouts layout_type = None \<longleftrightarrow> layouts = [])"
proof -
  have cl: "find_best_layout L (slide_layouts prs) (ascii ''content'') = Some l0"
    using assms(2,3) find_best_layout_fallthrough [of L l0 ls] by simp
  have ch: "0 < i \<longrightarrow> choose_layout title_layout (find_best_layout L (slide_layouts prs) (ascii ''content'')) new_prs i = Inr l0"
    by (simp add: cl choose_layout_def)
  let ?tl = "find_best_layout L (slide_layouts prs) (ascii ''title'')"
  obtain deck where deck: "template_pages L ?tl (Some l0) 0 formatted_content prs = Inr deck"
    using template_pages_succeeds by blast
  have run: "write_ppt_with_template self L fs formatted_content template_path output_path style
      = Inr (output_path, deck)"
    using assms(1,4) cl deck
    by (simp add: write_ppt_with_template_def template_try_body_def Let_def then_do_def)
  have "map slide_layout (slides deck) =
      map slide_layout (slides prs) @
      map (\<lambda>k. case (if k = 0 then ?tl else None) of Some l \<Rightarrow> l | None \<Rightarrow> l0)
          [0 ..< 0 + length formatted_content]"
    by (rule template_pages_layouts [OF deck])
  then have "drop (Suc (length (slides prs))) (map slide_layout (slides deck)) =
      drop 1 (map (\<lambda>k. case (if k = 0 then ?tl else None) of Some l \<Rightarrow> l | None \<Rightarrow> l0)
          [0 ..< length formatted_content])"
    by simp
  also have "\<dots> = map (\<lambda>k. case (if k = 0 then ?tl else None) of Some l \<Rightarrow> l | None \<Rightarrow> l0)
          [1 ..< length formatted_content]"
    by (simp add: drop_map)
  also have "\<dots> = map (\<lambda>k. l0) [1 ..< length formatted_content]"
    by (rule map_cong) auto
  also have "\<dots> = replicate (length formatted_content - 1) l0"
    by (simp add: map_replicate_const)
  finally have lay: "drop (Suc (length (slides prs))) (map slide_layout (slides deck))
                   = replicate (length formatted_content - 1) l0" .
  from run lay have ex: "\<exists>deck. write_ppt_with_template self L fs formatted_content template_path output_path style
                   = Inr (output_path, deck) \<and>
                 drop (Suc (length (slides prs))) (map slide_layout (slides deck))
                   = replicate (length formatted_content - 1) l0"
    by (intro exI conjI)
  show ?thesis
    by (intro conjI cl ch ex find_best_layout_None)
qed

theorem content_layout_falls_back_to_first_layout_witness:
  "open_file demo_files (ascii ''template.pptx'') = Some demo_template \<and>
   slide_layouts demo_template = [blank_layout, title_only_layout] \<and>
   \<not> list_ex (content_like demo_lib) (slide_layouts demo_template) \<and>
   find_best_layout demo_lib (slide_layouts demo_template) (ascii ''content'') = Some blank_layout \<and>
   choose_layout None (find_best_layout demo_lib (slide_layouts demo_template) (ascii ''content''))
     demo_template 1 = Inr blank_layout \<and>
   (\<exists>deck. write_ppt_with_template PPTWriter_init demo_lib demo_files demo_outline
              (ascii ''template.pptx'') (ascii ''out.pptx'') None = Inr (ascii ''out.pptx'', deck) \<and>
           drop 1 (map slide_layout (slides deck)) = [blank_layout])"
proof -
  have a: "open_file demo_files (ascii ''template.pptx'') = Some demo_template"
    by (simp add: demo_files_def)
  have b: "slide_layouts demo_template = blank_layout # [title_only_layout]"
    by (simp add: demo_template_def)
  have d: "can_save demo_files (ascii ''out.pptx'')"
    by (simp add: demo_files_def)
  have e: "length demo_outline = 2" "slides demo_template = []"
    by (simp_all add: demo_outline_def demo_template_def)
  show ?thesis
    using content_layout_falls_back_to_first_layout [OF a b demo_template_not_content_like d,
        of 1 None demo_template PPTWriter_init demo_outline None "[]" "[]"]
      a b demo_template_not_content_like e
    by (simp add: numeral_2_eq_2 choose_layout_def)
qed

end
